theory Spec2Isabelle
  imports Main
begin

section \<open>OpenCodeClient: the session context synchronizer\<close>

text \<open>
  The class \<open>OpenCodeClient\<close> of \<open>src/WorkspaceContext.ts\<close>. Strings are character lists;
  a field of type \<open>T | null\<close> or an optional field is an \<open>option\<close>. The field names
  \<open>id\<close>, \<open>type\<close>, \<open>text\<close> and \<open>method\<close> of the source carry a suffix or a prefix
  here, since they are taken in Isabelle. The values are the ones the declared types admit;
  what the class writes to the console is left out.
\<close>

subsection \<open>Data\<close>

record OpenCodePart =
  id_part :: string
  messageID :: string
  sessionID :: string
  type_part :: string
  text_part :: "string option"
  ignored :: "bool option"
  synthetic :: "bool option"
  metadata :: "(string \<times> string) list option"
  time_part :: "(nat \<times> nat option) option"

record OpenCodeMessageInfo =
  id_info :: string
  sessionID_info :: string

record OpenCodeMessageWithParts =
  info :: OpenCodeMessageInfo
  parts :: "OpenCodePart list"

record OpenCodeSession =
  id_session :: "string option"

text \<open>
  \<open>OpenCodeResponse<T> = T | { data?: T } | { message?: T } | null\<close>: the payload itself,
  the payload under the key \<open>data\<close>, the payload under the key \<open>message\<close>, or nothing.
  An envelope object whose key is missing is handed on by \<open>unwrap\<close> as it is, so it is
  the case \<open>Direct\<close> at the type of the payload.
\<close>

datatype 'a OpenCodeResponse = Null | Direct 'a | Data 'a | Message 'a

text \<open>
  What \<open>fetch\<close> does in \<open>request\<close>: it throws, it answers with a status that is not ok,
  it answers ok with a body that is not JSON, or it answers ok with a JSON body.
\<close>

datatype 'a fetched = Threw | NotOk nat | BadJson | Json "'a OpenCodeResponse"

datatype http_method = POST | PATCH

text \<open>
  The three request bodies of the class: \<open>{ title }\<close> of \<open>createSession\<close>,
  \<open>{ noReply, parts: [{ type, text }] }\<close> of \<open>sendPrompt\<close>, and the part with the
  updates spread over it of \<open>updatePart\<close>.
\<close>

datatype body =
    SessionBody string
  | PromptBody bool "(string \<times> string) list"
  | PartBody OpenCodePart

record call =
  call_method :: http_method
  url :: string
  directory :: string
  payload :: body

text \<open>
  The remote server is a script: the calls issued so far (oldest first) and, for each of the
  three payload types, the answers that the next requests of that type will get. A request
  made when its script is used up finds no server: \<open>fetch\<close> throws.
\<close>

record world =
  calls :: "call list"
  sessionReplies :: "OpenCodeSession fetched list"
  messageReplies :: "OpenCodeMessageWithParts fetched list"
  partReplies :: "OpenCodePart fetched list"

record OpenCodeClient =
  apiBaseUrl :: string
  uiBaseUrl :: string
  projectDirectory :: string
  trackedSessionId :: "string option"
  lastPart :: "OpenCodePart option"

record updates =
  text_upd :: "string option"
  ignored_upd :: "bool option"

subsection \<open>Pure string operations\<close>

text \<open>\<open>baseUrl.replace(/\/+$/, "")\<close>: the trailing run of slashes is removed.\<close>

definition normalizeBaseUrl :: "string \<Rightarrow> string" where
  "normalizeBaseUrl baseUrl = rev (dropWhile (\<lambda>c. c = CHR ''/'') (rev baseUrl))"

definition getSessionUrl :: "OpenCodeClient \<Rightarrow> string \<Rightarrow> string" where
  "getSessionUrl c sessionId = uiBaseUrl c @ ''/session/'' @ sessionId"

text \<open>
  The regular expression \<open>/\/session\/([^/?#]+)/\<close>. \<open>delimiter\<close> is the complement of
  the character class, \<open>match_at\<close> is a match that starts at the head of the string
  (the group is greedy and must not be empty), and \<open>resolveSessionId\<close> takes the
  leftmost match, as \<open>String.prototype.match\<close> does; \<open>match?.[1] ?? null\<close> is the group.
\<close>

definition delimiter :: "char \<Rightarrow> bool" where
  "delimiter c = (c = CHR ''/'' \<or> c = CHR ''?'' \<or> c = CHR ''#'')"

definition match_at :: "string \<Rightarrow> string option" where
  "match_at s =
     (if take 9 s = ''/session/''
      then (let g = takeWhile (\<lambda>c. \<not> delimiter c) (drop 9 s)
            in if g = [] then None else Some g)
      else None)"

fun resolveSessionId :: "string \<Rightarrow> string option" where
  "resolveSessionId [] = None"
| "resolveSessionId (c # cs) =
     (case match_at (c # cs) of
        Some g \<Rightarrow> Some g
      | None \<Rightarrow> resolveSessionId cs)"

subsection \<open>Construction and tracking\<close>

definition constructor :: "string \<Rightarrow> string \<Rightarrow> string \<Rightarrow> OpenCodeClient" where
  "constructor api ui dir =
     \<lparr> apiBaseUrl = normalizeBaseUrl api,
       uiBaseUrl = normalizeBaseUrl ui,
       projectDirectory = dir,
       trackedSessionId = None,
       lastPart = None \<rparr>"

definition resetTracking :: "OpenCodeClient \<Rightarrow> OpenCodeClient" where
  "resetTracking c = c\<lparr> trackedSessionId := None, lastPart := None \<rparr>"

definition updateBaseUrl :: "OpenCodeClient \<Rightarrow> string \<Rightarrow> string \<Rightarrow> string \<Rightarrow> OpenCodeClient" where
  "updateBaseUrl c api ui dir =
     (let nextApiUrl = normalizeBaseUrl api;
          nextUiUrl = normalizeBaseUrl ui
      in if nextApiUrl \<noteq> apiBaseUrl c \<or> nextUiUrl \<noteq> uiBaseUrl c \<or> dir \<noteq> projectDirectory c
         then resetTracking
                (c\<lparr> apiBaseUrl := nextApiUrl, uiBaseUrl := nextUiUrl, projectDirectory := dir \<rparr>)
         else c)"

subsection \<open>Transport\<close>

text \<open>
  \<open>request\<close>: the call is issued (and logged), and whatever goes wrong becomes \<open>null\<close>:
  a thrown error is caught, a status that is not ok and a body that is not JSON give
  \<open>null\<close>. One function per payload type, each reading its own script.
\<close>

definition settle :: "'a fetched \<Rightarrow> 'a OpenCodeResponse" where
  "settle f = (case f of Threw \<Rightarrow> Null | NotOk status \<Rightarrow> Null | BadJson \<Rightarrow> Null | Json r \<Rightarrow> r)"

definition issue :: "OpenCodeClient \<Rightarrow> http_method \<Rightarrow> string \<Rightarrow> body \<Rightarrow> world \<Rightarrow> world" where
  "issue c m path b w =
     w\<lparr> calls := calls w @
          [\<lparr> call_method = m, url = apiBaseUrl c @ path, directory = projectDirectory c, payload = b \<rparr>] \<rparr>"

definition request_session ::
  "OpenCodeClient \<Rightarrow> http_method \<Rightarrow> string \<Rightarrow> body \<Rightarrow> world \<Rightarrow> OpenCodeSession OpenCodeResponse \<times> world" where
  "request_session c m path b w =
     (case sessionReplies w of
        [] \<Rightarrow> (settle Threw, issue c m path b w)
      | f # fs \<Rightarrow> (settle f, issue c m path b (w\<lparr> sessionReplies := fs \<rparr>)))"

definition request_message ::
  "OpenCodeClient \<Rightarrow> http_method \<Rightarrow> string \<Rightarrow> body \<Rightarrow> world
     \<Rightarrow> OpenCodeMessageWithParts OpenCodeResponse \<times> world" where
  "request_message c m path b w =
     (case messageReplies w of
        [] \<Rightarrow> (settle Threw, issue c m path b w)
      | f # fs \<Rightarrow> (settle f, issue c m path b (w\<lparr> messageReplies := fs \<rparr>)))"

definition request_part ::
  "OpenCodeClient \<Rightarrow> http_method \<Rightarrow> string \<Rightarrow> body \<Rightarrow> world \<Rightarrow> OpenCodePart OpenCodeResponse \<times> world" where
  "request_part c m path b w =
     (case partReplies w of
        [] \<Rightarrow> (settle Threw, issue c m path b w)
      | f # fs \<Rightarrow> (settle f, issue c m path b (w\<lparr> partReplies := fs \<rparr>)))"

text \<open>
  \<open>unwrap\<close>: nothing for \<open>null\<close>, the value under \<open>data\<close>, else the value under
  \<open>message\<close>, else the result itself. The payloads are objects, so they are truthy.
\<close>

definition unwrap :: "'a OpenCodeResponse \<Rightarrow> 'a option" where
  "unwrap result =
     (case result of
        Null \<Rightarrow> None
      | Data d \<Rightarrow> Some d
      | Message m \<Rightarrow> Some m
      | Direct r \<Rightarrow> Some r)"

subsection \<open>Sessions, prompts and parts\<close>

definition createSession :: "OpenCodeClient \<Rightarrow> world \<Rightarrow> string option \<times> OpenCodeClient \<times> world" where
  "createSession c w =
     (let (result, w') = request_session c POST ''/session'' (SessionBody ''Obsidian'') w
      in (case unwrap result of
            None \<Rightarrow> (None, c, w')
          | Some session \<Rightarrow> (id_session session, c, w')))"

definition sendPrompt ::
  "OpenCodeClient \<Rightarrow> string \<Rightarrow> string \<Rightarrow> world \<Rightarrow> OpenCodeMessageWithParts option \<times> world" where
  "sendPrompt c sessionId contextText w =
     (let (result, w') =
            request_message c POST (''/session/'' @ sessionId @ ''/message'')
              (PromptBody True [(''text'', contextText)]) w
      in (unwrap result, w'))"

text \<open>\<open>{ ...part, ...updates }\<close>: a key that the updates have replaces the part's.\<close>

definition spread :: "OpenCodePart \<Rightarrow> updates \<Rightarrow> OpenCodePart" where
  "spread part u =
     part\<lparr> text_part := (case text_upd u of Some t \<Rightarrow> Some t | None \<Rightarrow> text_part part),
           ignored := (case ignored_upd u of Some i \<Rightarrow> Some i | None \<Rightarrow> ignored part) \<rparr>"

definition part_path :: "OpenCodePart \<Rightarrow> string" where
  "part_path part =
     ''/session/'' @ sessionID part @ ''/message/'' @ messageID part @ ''/part/'' @ id_part part"

definition updatePart ::
  "OpenCodeClient \<Rightarrow> OpenCodePart \<Rightarrow> updates \<Rightarrow> world \<Rightarrow> bool \<times> OpenCodeClient \<times> world" where
  "updatePart c part u w =
     (let (result, w') = request_part c PATCH (part_path part) (PartBody (spread part u)) w
      in (case unwrap result of
            Some updated \<Rightarrow> (True, c\<lparr> lastPart := Some updated \<rparr>, w')
          | None \<Rightarrow> (False, c, w')))"

definition ignorePreviousPart :: "OpenCodeClient \<Rightarrow> world \<Rightarrow> bool \<times> OpenCodeClient \<times> world" where
  "ignorePreviousPart c w =
     (case lastPart c of
        None \<Rightarrow> (False, c, w)
      | Some part \<Rightarrow>
          (let (ignored, c', w') =
                 updatePart c part \<lparr> text_upd = None, ignored_upd = Some True \<rparr> w
           in if \<not> ignored then (False, c', w')
              else (True, c'\<lparr> lastPart := None \<rparr>, w')))"

text \<open>
  \<open>updateContext\<close>. The guards are JavaScript truthiness: \<open>this.trackedSessionId && ...\<close>
  holds for a tracked id that is neither \<open>null\<close> nor the empty string, \<open>!contextText\<close>
  for \<open>null\<close> and for the empty string, \<open>message?.info?.id\<close> for an id that is not
  empty; \<open>message.parts?.[0] ?? null\<close> is the first part if there is one.
  \<open>post_context\<close> is the end of \<open>updateContext\<close>, which two of its paths reach: the
  prompt is sent, and the first part of a message that came back with an id is remembered.
\<close>

definition truthy :: "string option \<Rightarrow> bool" where
  "truthy s = (case s of None \<Rightarrow> False | Some t \<Rightarrow> t \<noteq> [])"

definition first_part :: "OpenCodeMessageWithParts \<Rightarrow> OpenCodePart option" where
  "first_part message = (case parts message of [] \<Rightarrow> None | p # ps \<Rightarrow> Some p)"

definition post_context :: "OpenCodeClient \<Rightarrow> string \<Rightarrow> string \<Rightarrow> world \<Rightarrow> OpenCodeClient \<times> world" where
  "post_context c sessionId contextText w =
     (let (message, w') = sendPrompt c sessionId contextText w
      in (case message of
            None \<Rightarrow> (c, w')
          | Some m \<Rightarrow>
              if id_info (info m) \<noteq> [] then (c\<lparr> lastPart := first_part m \<rparr>, w') else (c, w')))"

definition updateContext ::
  "OpenCodeClient \<Rightarrow> string \<Rightarrow> string option \<Rightarrow> world \<Rightarrow> OpenCodeClient \<times> world" where
  "updateContext c sessionId contextText w =
     (let c1 = (if truthy (trackedSessionId c) \<and> trackedSessionId c \<noteq> Some sessionId
                then resetTracking c else c);
          c2 = c1\<lparr> trackedSessionId := Some sessionId \<rparr>
      in case (if truthy contextText then contextText else None) of
           None \<Rightarrow> (let (r, c3, w3) = ignorePreviousPart c2 w in (c3, w3))
         | Some txt \<Rightarrow>
             (case lastPart c2 of
                None \<Rightarrow> post_context c2 sessionId txt w
              | Some part \<Rightarrow>
                  (let (updated, c3, w3) =
                         updatePart c2 part \<lparr> text_upd = Some txt, ignored_upd = None \<rparr> w
                   in if updated then (c3, w3)
                      else (let (r, c4, w4) = ignorePreviousPart c3 w3
                            in post_context c4 sessionId txt w4))))"

subsection \<open>The calls as they are suspended\<close>

text \<open>
  \<open>createSession\<close> and \<open>updateContext\<close> are \<open>async\<close>: each runs until it awaits the
  answer to a request it has issued, and goes on when the answer is there; in between, other
  calls on the same client can run. \<open>begin_updateContext\<close> is \<open>updateContext\<close> up to its
  first request, a \<open>task\<close> says which answer a suspended call awaits and what it needs to
  go on, and \<open>resume\<close> takes the answer and runs the call up to its next request or its
  end. The fields of the client are read when the source reads them: the part that
  \<open>ignorePreviousPart\<close> ignores and the base URL of a request are those of the moment.
\<close>

definition take_session_reply :: "world \<Rightarrow> OpenCodeSession OpenCodeResponse \<times> world" where
  "take_session_reply w =
     (case sessionReplies w of
        [] \<Rightarrow> (settle Threw, w)
      | f # fs \<Rightarrow> (settle f, w\<lparr> sessionReplies := fs \<rparr>))"

definition take_message_reply :: "world \<Rightarrow> OpenCodeMessageWithParts OpenCodeResponse \<times> world" where
  "take_message_reply w =
     (case messageReplies w of
        [] \<Rightarrow> (settle Threw, w)
      | f # fs \<Rightarrow> (settle f, w\<lparr> messageReplies := fs \<rparr>))"

definition take_part_reply :: "world \<Rightarrow> OpenCodePart OpenCodeResponse \<times> world" where
  "take_part_reply w =
     (case partReplies w of
        [] \<Rightarrow> (settle Threw, w)
      | f # fs \<Rightarrow> (settle f, w\<lparr> partReplies := fs \<rparr>))"

text \<open>
  The awaits: the POST of \<open>createSession\<close>; the PATCH of \<open>ignorePreviousPart\<close> for an
  empty text; the PATCH of \<open>updatePart\<close> with the new text; the PATCH of
  \<open>ignorePreviousPart\<close> after that update has failed; the POST of \<open>sendPrompt\<close>.
\<close>

datatype task =
    SessionThenReturn
  | IgnoreThenReturn
  | UpdateThenFallback string string
  | IgnoreThenPost string string
  | PostThenTrack

definition issue_prompt :: "OpenCodeClient \<Rightarrow> string \<Rightarrow> string \<Rightarrow> world \<Rightarrow> world" where
  "issue_prompt c sessionId contextText w =
     issue c POST (''/session/'' @ sessionId @ ''/message'')
       (PromptBody True [(''text'', contextText)]) w"

definition issue_patch :: "OpenCodeClient \<Rightarrow> OpenCodePart \<Rightarrow> updates \<Rightarrow> world \<Rightarrow> world" where
  "issue_patch c part u w = issue c PATCH (part_path part) (PartBody (spread part u)) w"

definition begin_updateContext ::
  "OpenCodeClient \<Rightarrow> string \<Rightarrow> string option \<Rightarrow> world \<Rightarrow> OpenCodeClient \<times> world \<times> task option" where
  "begin_updateContext c sessionId contextText w =
     (let c1 = (if truthy (trackedSessionId c) \<and> trackedSessionId c \<noteq> Some sessionId
                then resetTracking c else c);
          c2 = c1\<lparr> trackedSessionId := Some sessionId \<rparr>
      in case (if truthy contextText then contextText else None) of
           None \<Rightarrow>
             (case lastPart c2 of
                None \<Rightarrow> (c2, w, None)
              | Some part \<Rightarrow>
                  (c2, issue_patch c2 part \<lparr> text_upd = None, ignored_upd = Some True \<rparr> w,
                   Some IgnoreThenReturn))
         | Some txt \<Rightarrow>
             (case lastPart c2 of
                None \<Rightarrow> (c2, issue_prompt c2 sessionId txt w, Some PostThenTrack)
              | Some part \<Rightarrow>
                  (c2, issue_patch c2 part \<lparr> text_upd = Some txt, ignored_upd = None \<rparr> w,
                   Some (UpdateThenFallback sessionId txt))))"

definition resume :: "task \<Rightarrow> OpenCodeClient \<Rightarrow> world \<Rightarrow> OpenCodeClient \<times> world \<times> task option" where
  "resume t c w =
     (case t of
        SessionThenReturn \<Rightarrow> (let (result, w') = take_session_reply w in (c, w', None))
      | IgnoreThenReturn \<Rightarrow>
          (let (result, w') = take_part_reply w
           in (case unwrap result of
                 Some updated \<Rightarrow> (c\<lparr> lastPart := Some updated, lastPart := None \<rparr>, w', None)
               | None \<Rightarrow> (c, w', None)))
      | UpdateThenFallback sessionId txt \<Rightarrow>
          (let (result, w') = take_part_reply w
           in (case unwrap result of
                 Some updated \<Rightarrow> (c\<lparr> lastPart := Some updated \<rparr>, w', None)
               | None \<Rightarrow>
                   (case lastPart c of
                      None \<Rightarrow> (c, issue_prompt c sessionId txt w', Some PostThenTrack)
                    | Some part \<Rightarrow>
                        (c, issue_patch c part \<lparr> text_upd = None, ignored_upd = Some True \<rparr> w',
                         Some (IgnoreThenPost sessionId txt)))))
      | IgnoreThenPost sessionId txt \<Rightarrow>
          (let (result, w') = take_part_reply w;
               c' = (case unwrap result of
                       Some updated \<Rightarrow> c\<lparr> lastPart := Some updated, lastPart := None \<rparr>
                     | None \<Rightarrow> c)
           in (c', issue_prompt c' sessionId txt w', Some PostThenTrack))
      | PostThenTrack \<Rightarrow>
          (let (result, w') = take_message_reply w
           in (case unwrap result of
                 None \<Rightarrow> (c, w', None)
               | Some m \<Rightarrow>
                   if id_info (info m) \<noteq> [] then (c\<lparr> lastPart := first_part m \<rparr>, w', None)
                   else (c, w', None))))"

section \<open>ProcessManager: the process supervisor\<close>

text \<open>
  The class \<open>ProcessManager\<close> of \<open>src/ProcessManager.ts\<close>, for one caller at a time: the
  calls of \<open>start\<close> and \<open>stop\<close> do not overlap. What the operating system and the
  server do is a script that the operations read (\<open>env\<close>); a promise that rejects is
  the value \<open>Rejected\<close>. Of the console output, the lines of \<open>stop\<close> and of
  \<open>setError\<close> are kept; \<open>spawn\<close> itself is taken not to throw.
\<close>

subsection \<open>Data\<close>

datatype ProcessState = Stopped | Starting | Running | Error

datatype signal = SIGTERM | SIGKILL

text \<open>The fields of \<open>OpenCodeSettings\<close> (declared in \<open>./types\<close>) that the class reads.\<close>

record OpenCodeSettings =
  opencodePath :: string
  port :: nat
  hostname :: string
  startupTimeout :: nat

record ChildProcess =
  pid :: "nat option"
  exitCode :: "int option"
  signalCode :: "string option"

record ProcessManager =
  process :: "ChildProcess option"
  state :: ProcessState
  lastError_pm :: "string option"
  earlyExitCode :: "int option"
  settings :: OpenCodeSettings
  projectDirectory_pm :: string

datatype 'a outcome = Returned 'a | Rejected string

text \<open>
  How a child ends: with an exit code or by a signal. The events a child emits:
  \<open>exit\<close> with its code and signal, \<open>error\<close> with the error's code and message.
  The handlers close over the manager, so an event of any child spawned so far reaches it.
\<close>

datatype exit_status = Code int | Signal string

datatype child_event = ExitEvent exit_status | ErrorEvent string string

text \<open>
  What the class does to the outside, in order; every entry is stored with the state the
  manager shows at that moment.
\<close>

datatype effect =
    StateChange ProcessState
  | ConsoleLog string
  | ConsoleError string
  | Probe string nat string
  | SpawnServe string nat string string
  | ProcessKill nat signal
  | Exec string
  | AwaitExit nat
  | Sleep nat

text \<open>
  The script. \<open>probes\<close>: for each health probe, whether the server answered ok, the
  milliseconds the probe took and the events the child emitted meanwhile. \<open>sleeps\<close>: for
  each sleep, how late the timer fired and the events emitted meanwhile. \<open>spawns\<close>: the
  pid of each spawned child (none when it could not be spawned). \<open>kills\<close>: for each
  attempt to signal the process tree, the error if it failed, and the exit of the child if
  it was delivered while \<open>taskkill\<close> ran. \<open>waits\<close>: for each wait for the child's
  exit, the exit if it came within the bound. A script that is used up gives a failed
  probe, a punctual timer, a child without pid, a delivered signal and a child that stays.
\<close>

record probe =
  ok :: bool
  elapsed :: nat
  during_probe :: "child_event list"

record timer =
  late :: nat
  during_sleep :: "child_event list"

record kill_result =
  failure :: "string option"
  exited :: "exit_status option"

record env =
  win32 :: bool
  now :: nat
  effects :: "(ProcessState \<times> effect) list"
  probes :: "probe list"
  sleeps :: "timer list"
  spawns :: "nat option list"
  kills :: "kill_result list"
  waits :: "exit_status option list"

subsection \<open>Numbers in messages\<close>

fun digits :: "nat \<Rightarrow> string" where
  "digits n =
     (if n < 10 then [char_of (48 + n)]
      else digits (n div 10) @ [char_of (48 + n mod 10)])"

declare digits.simps [simp del]

definition show_int :: "int \<Rightarrow> string" where
  "show_int i = (if i < 0 then CHR ''-'' # digits (nat (- i)) else digits (nat i))"

subsection \<open>State and the handlers of the child's events\<close>

definition emit :: "ProcessManager \<Rightarrow> effect \<Rightarrow> env \<Rightarrow> env" where
  "emit m x e = e\<lparr> effects := effects e @ [(state m, x)] \<rparr>"

definition setState :: "ProcessManager \<Rightarrow> ProcessState \<Rightarrow> env \<Rightarrow> ProcessManager \<times> env" where
  "setState m s e = (let m' = m\<lparr> state := s \<rparr> in (m', emit m' (StateChange s) e))"

definition setError :: "ProcessManager \<Rightarrow> string \<Rightarrow> env \<Rightarrow> bool \<times> ProcessManager \<times> env" where
  "setError m message e =
     (let m1 = m\<lparr> lastError_pm := Some message \<rparr>;
          e1 = emit m1 (ConsoleError message) e;
          (m2, e2) = setState m1 Error e1
      in (False, m2, e2))"

text \<open>
  The \<open>exit\<close> handler that \<open>start\<close> registers: the handle is dropped, a non-zero exit
  code is recorded while the state is \<open>starting\<close>, a running manager becomes stopped.
\<close>

definition on_exit :: "ProcessManager \<Rightarrow> exit_status \<Rightarrow> env \<Rightarrow> ProcessManager \<times> env" where
  "on_exit m st e =
     (let m1 = m\<lparr> process := None \<rparr>;
          m2 = (case st of
                  Code code \<Rightarrow>
                    if state m1 = Starting \<and> code \<noteq> 0 then m1\<lparr> earlyExitCode := Some code \<rparr> else m1
                | Signal s \<Rightarrow> m1)
      in if state m2 = Running then setState m2 Stopped e else (m2, e))"

text \<open>The \<open>error\<close> handler that \<open>start\<close> registers.\<close>

definition on_error :: "ProcessManager \<Rightarrow> string \<Rightarrow> string \<Rightarrow> env \<Rightarrow> ProcessManager \<times> env" where
  "on_error m code message e =
     (let m1 = m\<lparr> process := None \<rparr>;
          (r, m2, e2) =
            (if code = ''ENOENT''
             then setError m1 (''Executable not found at '' @ [CHR 0x27] @
                               opencodePath (settings m1) @ [CHR 0x27]) e
             else setError m1 (''Failed to start: '' @ message) e)
      in (m2, e2))"

fun deliver :: "child_event list \<Rightarrow> ProcessManager \<Rightarrow> env \<Rightarrow> ProcessManager \<times> env" where
  "deliver [] m e = (m, e)"
| "deliver (ExitEvent st # evs) m e = (case on_exit m st e of (m1, e1) \<Rightarrow> deliver evs m1 e1)"
| "deliver (ErrorEvent code message # evs) m e =
     (case on_error m code message e of (m1, e1) \<Rightarrow> deliver evs m1 e1)"

subsection \<open>Probing and waiting\<close>

text \<open>
  \<open>checkServerHealth\<close>: a GET that is aborted after 2000 ms; every failure is \<open>false\<close>.
  \<open>sleep\<close>: a timer fires no sooner than asked. Both are awaited, so the events that the
  script has for them are handled before they return.
\<close>

definition checkServerHealth :: "ProcessManager \<Rightarrow> env \<Rightarrow> bool \<times> ProcessManager \<times> env" where
  "checkServerHealth m e =
     (let (p, ps) = (case probes e of
                       [] \<Rightarrow> (\<lparr> ok = False, elapsed = 0, during_probe = [] \<rparr>, [])
                     | p # ps \<Rightarrow> (p, ps));
          e1 = emit m (Probe (hostname (settings m)) (port (settings m)) (projectDirectory_pm m))
                 (e\<lparr> probes := ps, now := now e + min (elapsed p) 2000 \<rparr>);
          (m2, e2) = deliver (during_probe p) m e1
      in (ok p \<and> elapsed p < 2000, m2, e2))"

definition sleep :: "nat \<Rightarrow> ProcessManager \<Rightarrow> env \<Rightarrow> ProcessManager \<times> env" where
  "sleep ms m e =
     (let (t, ts) = (case sleeps e of
                       [] \<Rightarrow> (\<lparr> late = 0, during_sleep = [] \<rparr>, [])
                     | t # ts \<Rightarrow> (t, ts));
          e1 = emit m (Sleep ms) (e\<lparr> sleeps := ts, now := now e + ms + late t \<rparr>)
      in deliver (during_sleep t) m e1)"

text \<open>
  \<open>waitForServerOrExit\<close>: the loop runs while less than \<open>timeoutMs\<close> have passed
  since \<open>startTime\<close>; it gives up when the handle is gone, succeeds when a probe does,
  and sleeps 500 ms between two probes. The clock never runs backwards, so
  \<open>Date.now() - startTime < timeoutMs\<close> is \<open>now < startTime + timeoutMs\<close>; it moves on
  in every round, so the loop ends.
\<close>

lemma now_deliver: "deliver evs m e = (m', e') \<Longrightarrow> now e' = now e"
proof (induction evs m e arbitrary: m' e' rule: deliver.induct)
  case (1 m e)
  then show ?case by simp
next
  case (2 st evs m e)
  obtain m1 e1 where h: "on_exit m st e = (m1, e1)" by (cases "on_exit m st e")
  then have "now e1 = now e"
    by (auto simp: on_exit_def setState_def emit_def Let_def split: if_splits)
  with 2 h show ?case by simp
next
  case (3 code message evs m e)
  obtain m1 e1 where h: "on_error m code message e = (m1, e1)"
    by (cases "on_error m code message e")
  then have "now e1 = now e"
    by (auto simp: on_error_def setError_def setState_def emit_def Let_def split: if_splits)
  with 3 h show ?case by simp
qed

lemma now_checkServerHealth: "checkServerHealth m e = (h, m', e') \<Longrightarrow> now e \<le> now e'"
  by (auto simp: checkServerHealth_def emit_def Let_def
      split: list.splits prod.splits dest!: now_deliver)

lemma now_sleep: "sleep ms m e = (m', e') \<Longrightarrow> now e + ms \<le> now e'"
  by (auto simp: sleep_def emit_def Let_def split: list.splits prod.splits dest!: now_deliver)

function waitForServerOrExit ::
  "ProcessManager \<Rightarrow> nat \<Rightarrow> nat \<Rightarrow> env \<Rightarrow> bool \<times> ProcessManager \<times> env" where
  "waitForServerOrExit m timeoutMs startTime e =
     (if now e < startTime + timeoutMs
      then (if process m = None then (False, m, e)
            else (case checkServerHealth m e of
                    (h, m1, e1) \<Rightarrow>
                      if h then (True, m1, e1)
                      else (case sleep 500 m1 e1 of
                              (m2, e2) \<Rightarrow> waitForServerOrExit m2 timeoutMs startTime e2)))
      else (False, m, e))"
  by pat_completeness auto
termination
  by (relation "measure (\<lambda>(m, timeoutMs, startTime, e). startTime + timeoutMs - now e)")
     (auto dest!: now_checkServerHealth [OF sym] now_sleep [OF sym])

declare waitForServerOrExit.simps [simp del]

subsection \<open>Teardown\<close>

text \<open>
  \<open>killProcessTree\<close>. On Windows \<open>taskkill\<close> is run through \<open>execAsync\<close>, whose promise
  rejects when the command fails; the child's exit may be delivered while the command
  runs. Elsewhere \<open>process.kill(-pid, signal)\<close> signals the process group at once and
  throws when the signal cannot be delivered. Neither is caught here. The handle \<open>proc\<close>
  that \<open>stop\<close> keeps is passed along, since an exit sets its \<open>exitCode\<close> or
  \<open>signalCode\<close>.
\<close>

definition record_exit :: "ChildProcess \<Rightarrow> exit_status \<Rightarrow> ChildProcess" where
  "record_exit proc st =
     (case st of
        Code code \<Rightarrow> proc\<lparr> exitCode := Some code \<rparr>
      | Signal s \<Rightarrow> proc\<lparr> signalCode := Some s \<rparr>)"

definition next_kill :: "env \<Rightarrow> kill_result \<times> env" where
  "next_kill e =
     (case kills e of
        [] \<Rightarrow> (\<lparr> failure = None, exited = None \<rparr>, e)
      | k # ks \<Rightarrow> (k, e\<lparr> kills := ks \<rparr>))"

definition killProcessTree ::
  "nat \<Rightarrow> signal \<Rightarrow> ChildProcess \<Rightarrow> ProcessManager \<Rightarrow> env
     \<Rightarrow> unit outcome \<times> ChildProcess \<times> ProcessManager \<times> env" where
  "killProcessTree p sig proc m e =
     (let (k, e0) = next_kill e
      in if win32 e0
         then (let e1 = emit m (Exec (''taskkill /T /F /PID '' @ digits p)) e0;
                   (proc2, m2, e2) =
                     (case exited k of
                        None \<Rightarrow> (proc, m, e1)
                      | Some st \<Rightarrow> (case on_exit m st e1 of (m', e') \<Rightarrow> (record_exit proc st, m', e')))
               in (case failure k of
                     Some err \<Rightarrow> (Rejected err, proc2, m2, e2)
                   | None \<Rightarrow> (Returned (), proc2, m2, e2)))
         else (let e1 = emit m (ProcessKill p sig) e0
               in (case failure k of
                     Some err \<Rightarrow> (Rejected err, proc, m, e1)
                   | None \<Rightarrow> (Returned (), proc, m, e1))))"

text \<open>
  \<open>waitForProcessExit\<close>: true at once when the handle shows an exit, else true when the
  child's exit comes within \<open>timeoutMs\<close>, else false. The promise also listens for
  \<open>error\<close>; Node emits that event for a child that could not be spawned (it has no
  pid), could not be killed through its handle or could not be sent a message, and \<open>stop\<close>
  waits only for a child with a pid, which it signals through \<open>process.kill\<close> or
  \<open>taskkill\<close>. So the wait ends by an exit or by the timer.
\<close>

definition waitForProcessExit ::
  "ChildProcess \<Rightarrow> nat \<Rightarrow> ProcessManager \<Rightarrow> env \<Rightarrow> bool \<times> ChildProcess \<times> ProcessManager \<times> env" where
  "waitForProcessExit proc timeoutMs m e =
     (if exitCode proc \<noteq> None \<or> signalCode proc \<noteq> None then (True, proc, m, e)
      else (let (w, ws) = (case waits e of [] \<Rightarrow> (None, []) | w # ws \<Rightarrow> (w, ws));
                e1 = emit m (AwaitExit timeoutMs) (e\<lparr> waits := ws \<rparr>)
            in (case w of
                  None \<Rightarrow> (False, proc, m, e1\<lparr> now := now e1 + timeoutMs \<rparr>)
                | Some st \<Rightarrow>
                    (case on_exit m st e1 of (m', e') \<Rightarrow> (True, record_exit proc st, m', e')))))"

definition stop :: "ProcessManager \<Rightarrow> env \<Rightarrow> unit outcome \<times> ProcessManager \<times> env" where
  "stop m e =
     (case process m of
        None \<Rightarrow> (let (m1, e1) = setState m Stopped e in (Returned (), m1, e1))
      | Some proc \<Rightarrow>
          (case pid proc of
             None \<Rightarrow>
               (let e0 = emit m (ConsoleLog ''[OpenCode] No PID available, cleaning up state'') e;
                    (m1, e1) = setState m Stopped e0
                in (Returned (), m1\<lparr> process := None \<rparr>, e1))
           | Some p \<Rightarrow>
               (let e0 = emit m (ConsoleLog ''[OpenCode] Stopping server process tree, PID:'') e;
                    (m1, e1) = setState m Stopped e0;
                    m2 = m1\<lparr> process := None \<rparr>
                in (case killProcessTree p SIGTERM proc m2 e1 of
                      (Rejected err, proc3, m3, e3) \<Rightarrow> (Rejected err, m3, e3)
                    | (Returned u, proc3, m3, e3) \<Rightarrow>
                        (case waitForProcessExit proc3 2000 m3 e3 of
                           (gracefulExited, proc4, m4, e4) \<Rightarrow>
                             if gracefulExited
                             then (Returned (), m4,
                                   emit m4 (ConsoleLog ''[OpenCode] Server stopped gracefully'') e4)
                             else (let e5 = emit m4 (ConsoleLog
                                     ''[OpenCode] Process didn't exit gracefully, sending SIGKILL'') e4
                                   in (case killProcessTree p SIGKILL proc4 m4 e5 of
                                         (Rejected err, proc6, m6, e6) \<Rightarrow> (Rejected err, m6, e6)
                                       | (Returned u, proc6, m6, e6) \<Rightarrow>
                                           (case waitForProcessExit proc6 3000 m6 e6 of
                                              (forceExited, proc7, m7, e7) \<Rightarrow>
                                                if forceExited
                                                then (Returned (), m7, emit m7 (ConsoleLog
                                                        ''[OpenCode] Server stopped with SIGKILL'') e7)
                                                else (Returned (), m7, emit m7 (ConsoleError
                                                        ''[OpenCode] Failed to stop server within timeout'')
                                                        e7)))))))))"

subsection \<open>Startup\<close>

definition spawn :: "ProcessManager \<Rightarrow> env \<Rightarrow> ProcessManager \<times> env" where
  "spawn m e =
     (let (p, ps) = (case spawns e of [] \<Rightarrow> (None, []) | p # ps \<Rightarrow> (p, ps));
          e1 = emit m (SpawnServe (opencodePath (settings m)) (port (settings m))
                         (hostname (settings m)) (projectDirectory_pm m))
                 (e\<lparr> spawns := ps \<rparr>)
      in (m\<lparr> process := Some \<lparr> pid = p, exitCode = None, signalCode = None \<rparr> \<rparr>, e1))"

definition start :: "ProcessManager \<Rightarrow> env \<Rightarrow> bool outcome \<times> ProcessManager \<times> env" where
  "start m e =
     (if state m = Running \<or> state m = Starting then (Returned True, m, e)
      else (let (m1, e1) = setState m Starting e;
                m2 = m1\<lparr> lastError_pm := None, earlyExitCode := None \<rparr>
            in if projectDirectory_pm m2 = []
               then (case setError m2 ''Project directory (vault) not configured'' e1 of
                       (r, m3, e3) \<Rightarrow> (Returned r, m3, e3))
               else (case checkServerHealth m2 e1 of
                       (healthy, m3, e3) \<Rightarrow>
                         if healthy
                         then (case setState m3 Running e3 of (m4, e4) \<Rightarrow> (Returned True, m4, e4))
                         else (case spawn m3 e3 of
                                 (m4, e4) \<Rightarrow>
                         (case waitForServerOrExit m4 (startupTimeout (settings m4)) (now e4) e4 of
                            (ready, m5, e5) \<Rightarrow>
                              if ready
                              then (case setState m5 Running e5 of (m6, e6) \<Rightarrow> (Returned True, m6, e6))
                              else if state m5 = Error then (Returned False, m5, e5)
                              else (case stop m5 e5 of
                                      (Rejected err, m6, e6) \<Rightarrow> (Rejected err, m6, e6)
                                    | (Returned u, m6, e6) \<Rightarrow>
                                        (case earlyExitCode m6 of
                                           Some code \<Rightarrow>
                                             (case setError m6
                                                (''Process exited unexpectedly (exit code '' @
                                                 show_int code @ '')'') e6 of
                                                (r, m7, e7) \<Rightarrow> (Returned r, m7, e7))
                                         | None \<Rightarrow>
                                             if process m6 = None
                                             then (case setError m6
                                                     ''Process exited before server became ready'' e6 of
                                                     (r, m7, e7) \<Rightarrow> (Returned r, m7, e7))
                                             else (case setError m6
                                                     ''Server failed to start within timeout'' e6 of
                                                     (r, m7, e7) \<Rightarrow> (Returned r, m7, e7)))))))))"


section \<open>What the claims speak about\<close>

subsection \<open>Runs of the client\<close>

text \<open>
  The public operations of \<open>OpenCodeClient\<close> that change it. A run is a list of events
  on a client, a server and the suspended calls: a public operation is invoked (a
  synchronous one runs to its end, an asynchronous one up to its first await), or the
  \<open>i\<close>-th suspended call gets its answer and goes on. The reachable clients are the
  results of the runs that start at the constructor with no call suspended.
\<close>

datatype client_op =
    UpdateBaseUrl string string string
  | ResetTracking
  | CreateSession
  | UpdateContext string "string option"

datatype event = Invoke client_op | Resume nat

fun step :: "event \<Rightarrow> OpenCodeClient \<times> world \<times> task list \<Rightarrow> OpenCodeClient \<times> world \<times> task list" where
  "step (Invoke (UpdateBaseUrl api ui dir)) (c, w, ts) = (updateBaseUrl c api ui dir, w, ts)"
| "step (Invoke ResetTracking) (c, w, ts) = (resetTracking c, w, ts)"
| "step (Invoke CreateSession) (c, w, ts) =
     (c, issue c POST ''/session'' (SessionBody ''Obsidian'') w, ts @ [SessionThenReturn])"
| "step (Invoke (UpdateContext sessionId contextText)) (c, w, ts) =
     (case begin_updateContext c sessionId contextText w of
        (c', w', None) \<Rightarrow> (c', w', ts)
      | (c', w', Some t) \<Rightarrow> (c', w', ts @ [t]))"
| "step (Resume i) (c, w, ts) =
     (if i < length ts
      then (case resume (ts ! i) c w of
              (c', w', None) \<Rightarrow> (c', w', take i ts @ drop (Suc i) ts)
            | (c', w', Some t) \<Rightarrow> (c', w', ts[i := t]))
      else (c, w, ts))"

fun interleave ::
  "event list \<Rightarrow> OpenCodeClient \<times> world \<times> task list \<Rightarrow> OpenCodeClient \<times> world \<times> task list" where
  "interleave [] st = st"
| "interleave (ev # evs) st = interleave evs (step ev st)"








text \<open>What the next PATCH gets, unwrapped: nothing when the request fails.\<close>

definition next_part_reply :: "world \<Rightarrow> OpenCodePart option" where
  "next_part_reply w = (case partReplies w of [] \<Rightarrow> None | f # fs \<Rightarrow> unwrap (settle f))"


subsection \<open>Example data\<close>

definition example_part :: OpenCodePart where
  "example_part =
     \<lparr> id_part = ''prt_1'', messageID = ''msg_1'', sessionID = ''ses_1'', type_part = ''text'',
       text_part = Some ''A'', ignored = None, synthetic = None, metadata = None,
       time_part = None \<rparr>"

definition example_message :: OpenCodeMessageWithParts where
  "example_message =
     \<lparr> info = \<lparr> id_info = ''msg_1'', sessionID_info = ''ses_1'' \<rparr>, parts = [example_part] \<rparr>"

definition example_client :: OpenCodeClient where
  "example_client = constructor ''http://h:1/'' ''http://h:1/dmF1bHQ/'' ''/vault''"

text \<open>A server that answers one POST of a message and one PATCH of a part.\<close>

definition example_world :: world where
  "example_world =
     \<lparr> calls = [], sessionReplies = [],
       messageReplies = [Json (Direct example_message)],
       partReplies = [Json (Data (example_part\<lparr> text_part := Some ''B'' \<rparr>))] \<rparr>"

text \<open>A server that answers one POST of a message and is gone afterwards.\<close>

definition world_post_only :: world where
  "world_post_only =
     \<lparr> calls = [], sessionReplies = [],
       messageReplies = [Json (Direct example_message)],
       partReplies = [] \<rparr>"

text \<open>The client after its first context has been posted to session \<open>ses_1\<close>.\<close>

definition tracked_client :: OpenCodeClient where
  "tracked_client =
     example_client\<lparr> trackedSessionId := Some ''ses_1'', lastPart := Some example_part \<rparr>"

text \<open>
  A supervisor on a POSIX system: at rest, and with a running child. Scripts: nothing
  answers and the child never exits; the first signal cannot be delivered; the second probe
  succeeds.
\<close>

definition example_settings :: OpenCodeSettings where
  "example_settings =
     \<lparr> opencodePath = ''opencode'', port = 14096, hostname = ''127.0.0.1'', startupTimeout = 5000 \<rparr>"

definition example_manager :: ProcessManager where
  "example_manager =
     \<lparr> process = None, state = Stopped, lastError_pm = None, earlyExitCode = None,
       settings = example_settings, projectDirectory_pm = ''/vault'' \<rparr>"

definition running_manager :: ProcessManager where
  "running_manager =
     example_manager\<lparr> process := Some \<lparr> pid = Some 4242, exitCode = None, signalCode = None \<rparr>,
                      state := Running \<rparr>"

definition example_env :: env where
  "example_env =
     \<lparr> win32 = False, now = 0, effects = [], probes = [], sleeps = [], spawns = [Some 4242],
       kills = [], waits = [] \<rparr>"

definition env_signal_fails :: env where
  "env_signal_fails = example_env\<lparr> kills := [\<lparr> failure = Some ''ESRCH'', exited = None \<rparr>] \<rparr>"

definition env_ready_later :: env where
  "env_ready_later =
     example_env\<lparr> probes := [\<lparr> ok = False, elapsed = 3, during_probe = [] \<rparr>,
                              \<lparr> ok = True, elapsed = 20, during_probe = [] \<rparr>] \<rparr>"

subsection \<open>Effects of the supervisor\<close>

text \<open>
  The effects that are teardown I/O (a signal, the kill command, a wait for the exit), the
  number of children spawned so far, and what it means that, after the effects \<open>before\<close>,
  every piece of teardown I/O was done while the manager showed \<open>stopped\<close>.
\<close>

fun teardown_io :: "effect \<Rightarrow> bool" where
  "teardown_io (ProcessKill p sig) = True"
| "teardown_io (Exec command) = True"
| "teardown_io (AwaitExit timeoutMs) = True"
| "teardown_io x = False"

fun is_spawn :: "effect \<Rightarrow> bool" where
  "is_spawn (SpawnServe path p host cwd) = True"
| "is_spawn x = False"

definition spawned :: "env \<Rightarrow> nat" where
  "spawned e = length (filter is_spawn (map snd (effects e)))"

definition quiet :: "(ProcessState \<times> effect) list \<Rightarrow> env \<Rightarrow> bool" where
  "quiet before e =
     (\<exists>new. effects e = before @ new \<and> (\<forall>(s, x) \<in> set new. teardown_io x \<longrightarrow> s = Stopped))"


text \<open>The recorded error is not the message of the readiness timeout.\<close>

definition no_timeout_error :: "ProcessManager \<Rightarrow> bool" where
  "no_timeout_error m = (lastError_pm m \<noteq> Some ''Server failed to start within timeout'')"

section \<open>Evaluation of the examples\<close>

text \<open>The definitions that a concrete run unfolds, and the first context update of the example.\<close>

lemmas client_defs =
  updateContext_def truthy_def resetTracking_def post_context_def sendPrompt_def
  ignorePreviousPart_def updatePart_def request_message_def request_part_def settle_def
  unwrap_def first_part_def issue_def spread_def part_path_def Let_def


lemmas example_defs =
  example_client_def example_world_def world_post_only_def example_message_def example_part_def
  tracked_client_def constructor_def normalizeBaseUrl_def


lemmas manager_defs =
  example_settings_def example_manager_def running_manager_def example_env_def
  env_signal_fails_def env_ready_later_def

lemmas stop_defs =
  stop_def setState_def emit_def killProcessTree_def next_kill_def waitForProcessExit_def
  on_exit_def record_exit_def Let_def

section \<open>The client's tracking\<close>


text \<open>
  The steps agree with the calls: a call of \<open>updateContext\<close> or \<open>createSession\<close> that
  is resumed at once until it ends, with nothing in between, is the call as a whole.
\<close>

lemma resume_post:
  "resume PostThenTrack c (issue_prompt c sessionId txt w) =
     (fst (post_context c sessionId txt w), snd (post_context c sessionId txt w), None)"
  by (simp add: resume_def take_message_reply_def issue_prompt_def post_context_def sendPrompt_def
        request_message_def issue_def Let_def split: option.splits list.splits)

lemma resume_ignore:
  assumes "lastPart c = Some part"
  shows "resume IgnoreThenReturn c
           (issue_patch c part \<lparr> text_upd = None, ignored_upd = Some True \<rparr> w) =
         (fst (snd (ignorePreviousPart c w)), snd (snd (ignorePreviousPart c w)), None)"
    and "resume (IgnoreThenPost sessionId txt) c
           (issue_patch c part \<lparr> text_upd = None, ignored_upd = Some True \<rparr> w) =
         (fst (snd (ignorePreviousPart c w)),
          issue_prompt (fst (snd (ignorePreviousPart c w))) sessionId txt
            (snd (snd (ignorePreviousPart c w))),
          Some PostThenTrack)"
  using assms
  by (simp_all add: resume_def take_part_reply_def issue_patch_def issue_prompt_def
        ignorePreviousPart_def updatePart_def request_part_def issue_def Let_def
      split: option.splits list.splits)

lemma ignore_nothing: "lastPart c = None \<Longrightarrow> ignorePreviousPart c w = (False, c, w)"
  by (simp add: ignorePreviousPart_def)

lemma resume_update:
  "resume (UpdateThenFallback sessionId txt) c
     (issue_patch c part \<lparr> text_upd = Some txt, ignored_upd = None \<rparr> w) =
   (case updatePart c part \<lparr> text_upd = Some txt, ignored_upd = None \<rparr> w of
      (updated, c3, w3) \<Rightarrow>
        if updated then (c3, w3, None)
        else (case lastPart c3 of
                None \<Rightarrow> (c3, issue_prompt c3 sessionId txt w3, Some PostThenTrack)
              | Some old \<Rightarrow>
                  (c3, issue_patch c3 old \<lparr> text_upd = None, ignored_upd = Some True \<rparr> w3,
                   Some (IgnoreThenPost sessionId txt))))"
  by (simp add: resume_def take_part_reply_def issue_patch_def issue_prompt_def updatePart_def
        request_part_def issue_def Let_def split: option.splits list.splits)

lemma run_to_completion:
  "interleave [Invoke (UpdateContext sessionId contextText), Resume 0, Resume 0, Resume 0] (c, w, []) =
     (fst (updateContext c sessionId contextText w), snd (updateContext c sessionId contextText w), [])"
proof -
  define c2 where "c2 = (if truthy (trackedSessionId c) \<and> trackedSessionId c \<noteq> Some sessionId
                          then resetTracking c else c)\<lparr> trackedSessionId := Some sessionId \<rparr>"
  show ?thesis
  proof (cases "truthy contextText")
    case False
    show ?thesis
    proof (cases "lastPart c2")
      case None
      with False show ?thesis
        by (simp add: begin_updateContext_def updateContext_def ignore_nothing c2_def Let_def)
    next
      case (Some part)
      with False have b: "begin_updateContext c sessionId contextText w =
          (c2, issue_patch c2 part \<lparr> text_upd = None, ignored_upd = Some True \<rparr> w,
           Some IgnoreThenReturn)"
        by (simp add: begin_updateContext_def c2_def Let_def)
      from False have u: "updateContext c sessionId contextText w =
          (fst (snd (ignorePreviousPart c2 w)), snd (snd (ignorePreviousPart c2 w)))"
        by (simp add: updateContext_def c2_def Let_def split_def)
      from b u Some show ?thesis by (simp add: resume_ignore)
    qed
  next
    case True
    then obtain body_text where t: "contextText = Some body_text" and ne: "body_text \<noteq> []"
      by (auto simp: truthy_def split: option.splits)
    show ?thesis
    proof (cases "lastPart c2")
      case None
      with t ne have b: "begin_updateContext c sessionId contextText w =
          (c2, issue_prompt c2 sessionId body_text w, Some PostThenTrack)"
        by (simp add: begin_updateContext_def truthy_def c2_def Let_def)
      from None t ne have u: "updateContext c sessionId contextText w = post_context c2 sessionId body_text w"
        by (simp add: updateContext_def truthy_def c2_def Let_def)
      from b u show ?thesis by (simp add: resume_post)
    next
      case (Some part)
      with t ne have b: "begin_updateContext c sessionId contextText w =
          (c2, issue_patch c2 part \<lparr> text_upd = Some body_text, ignored_upd = None \<rparr> w,
           Some (UpdateThenFallback sessionId body_text))"
        by (simp add: begin_updateContext_def truthy_def c2_def Let_def)
      obtain updated c3 w3
        where p: "updatePart c2 part \<lparr> text_upd = Some body_text, ignored_upd = None \<rparr> w = (updated, c3, w3)"
        by (cases "updatePart c2 part \<lparr> text_upd = Some body_text, ignored_upd = None \<rparr> w")
      from Some t ne p have u: "updateContext c sessionId contextText w =
          (if updated then (c3, w3)
           else post_context (fst (snd (ignorePreviousPart c3 w3))) sessionId body_text
                  (snd (snd (ignorePreviousPart c3 w3))))"
        by (simp add: updateContext_def truthy_def c2_def Let_def split_def)
      show ?thesis
      proof (cases updated)
        case True
        with b p u show ?thesis by (simp add: resume_update)
      next
        case False
        show ?thesis
        proof (cases "lastPart c3")
          case None
          with False b p u show ?thesis
            by (simp add: resume_update resume_post ignore_nothing)
        next
          case (Some old)
          with False b p u show ?thesis
            by (simp add: resume_update resume_ignore resume_post)
        qed
      qed
    qed
  qed
qed

lemma createSession_to_completion:
  "interleave [Invoke CreateSession, Resume 0] (c, w, []) =
     (fst (snd (createSession c w)), snd (snd (createSession c w)), [])"
  by (simp add: resume_def take_session_reply_def createSession_def request_session_def issue_def
        Let_def split: option.splits list.splits)










text \<open>
  Claim C10. \<open>updateBaseUrl\<close> changes nothing when the normalized API base URL, the
  normalized UI base URL and the project directory are the stored ones; when one of them
  differs it stores the three and untracks session and part.
\<close>

theorem updateBaseUrl_tracking:
  "(normalizeBaseUrl api = apiBaseUrl c \<and> normalizeBaseUrl ui = uiBaseUrl c \<and> dir = projectDirectory c
      \<longrightarrow> updateBaseUrl c api ui dir = c) \<and>
   (\<not> (normalizeBaseUrl api = apiBaseUrl c \<and> normalizeBaseUrl ui = uiBaseUrl c \<and> dir = projectDirectory c)
      \<longrightarrow> trackedSessionId (updateBaseUrl c api ui dir) = None \<and>
          lastPart (updateBaseUrl c api ui dir) = None \<and>
          apiBaseUrl (updateBaseUrl c api ui dir) = normalizeBaseUrl api \<and>
          uiBaseUrl (updateBaseUrl c api ui dir) = normalizeBaseUrl ui \<and>
          projectDirectory (updateBaseUrl c api ui dir) = dir)"
  by (auto simp: updateBaseUrl_def resetTracking_def Let_def)


text \<open>An instance: a trailing slash more changes nothing, another port untracks.\<close>

theorem updateBaseUrl_tracking_witness:
  "trackedSessionId tracked_client = Some ''ses_1'' \<and>
   updateBaseUrl tracked_client ''http://h:1'' ''http://h:1/dmF1bHQ//'' ''/vault'' = tracked_client \<and>
   trackedSessionId (updateBaseUrl tracked_client ''http://h:2'' ''http://h:2/dmF1bHQ'' ''/vault'') = None \<and>
   lastPart (updateBaseUrl tracked_client ''http://h:2'' ''http://h:2/dmF1bHQ'' ''/vault'') = None"
proof -
  have a: "normalizeBaseUrl ''http://h:1'' = apiBaseUrl tracked_client \<and>
           normalizeBaseUrl ''http://h:1/dmF1bHQ//'' = uiBaseUrl tracked_client \<and>
           ''/vault'' = projectDirectory tracked_client"
    by (simp add: example_defs)
  have b: "\<not> (normalizeBaseUrl ''http://h:2'' = apiBaseUrl tracked_client \<and>
           normalizeBaseUrl ''http://h:2/dmF1bHQ'' = uiBaseUrl tracked_client \<and>
           ''/vault'' = projectDirectory tracked_client)"
    by (simp add: example_defs)
  have c: "trackedSessionId tracked_client = Some ''ses_1''" by (simp add: example_defs)
  from a b c
    updateBaseUrl_tracking [of "''http://h:1''" tracked_client "''http://h:1/dmF1bHQ//''" "''/vault''"]
    updateBaseUrl_tracking [of "''http://h:2''" tracked_client "''http://h:2/dmF1bHQ''" "''/vault''"]
  show ?thesis by blast
qed

section \<open>Session urls\<close>

lemma match_at_iff:
  "(match_at u \<noteq> None) = (take 9 u = ''/session/'' \<and> 9 < length u \<and> \<not> delimiter (u ! 9))"
proof (cases "9 < length u")
  case True
  then have "drop 9 u \<noteq> []" and "hd (drop 9 u) = u ! 9"
    by (simp_all add: hd_drop_conv_nth)
  then show ?thesis
    using True by (auto simp: match_at_def Let_def takeWhile_eq_Nil_iff)
next
  case False
  then have "drop 9 u = []" by simp
  then show ?thesis using False by (simp add: match_at_def Let_def)
qed

lemma match_at_longer:
  assumes "9 < length u"
  shows "(match_at (u @ t) = None) = (match_at u = None)"
proof -
  from assms have "take 9 (u @ t) = take 9 u" and "(u @ t) ! 9 = u ! 9" and "9 < length (u @ t)"
    by (simp_all add: nth_append)
  with assms have "(match_at (u @ t) \<noteq> None) = (match_at u \<noteq> None)"
    by (simp only: match_at_iff)
  then show ?thesis by blast
qed

lemma match_at_extend:
  assumes "s \<noteq> []" and "match_at (s @ ''/session/'') = None"
  shows "match_at (s @ ''/session/'' @ t) = None"
proof -
  from assms(1) have "9 < length (s @ ''/session/'')" by (cases s) simp_all
  then have "(match_at ((s @ ''/session/'') @ t) = None) = (match_at (s @ ''/session/'') = None)"
    by (rule match_at_longer)
  with assms(2) show ?thesis by (simp only: append_assoc)
qed

lemma match_at_own:
  assumes "sessionId \<noteq> []" and "\<forall>ch \<in> set sessionId. \<not> delimiter ch"
  shows "match_at (''/session/'' @ sessionId) = Some sessionId"
proof -
  from assms(2) have tw: "takeWhile (\<lambda>c. \<not> delimiter c) sessionId = sessionId"
    by (simp add: takeWhile_eq_all_conv)
  from assms(1) show ?thesis by (simp add: match_at_def Let_def tw)
qed

lemma resolve_after_base:
  assumes "sessionId \<noteq> []" and "\<forall>ch \<in> set sessionId. \<not> delimiter ch"
  shows "resolveSessionId (base @ ''/session/'') = None \<Longrightarrow>
         resolveSessionId (base @ ''/session/'' @ sessionId) = Some sessionId"
proof (induction base)
  case Nil
  from assms have "match_at (''/session/'' @ sessionId) = Some sessionId" by (rule match_at_own)
  then show ?case by simp
next
  case (Cons b bs)
  from Cons.prems have m: "match_at ((b # bs) @ ''/session/'') = None"
    and r: "resolveSessionId (bs @ ''/session/'') = None"
    by (auto split: option.splits)
  from m have "match_at ((b # bs) @ ''/session/'' @ sessionId) = None"
    by (intro match_at_extend) simp_all
  moreover from r have "resolveSessionId (bs @ ''/session/'' @ sessionId) = Some sessionId"
    by (rule Cons.IH)
  ultimately show ?case by simp
qed


text \<open>
  Claim C8, amended. For a session id that is not empty and has none of the characters
  \<open>/\<close>, \<open>?\<close> and \<open>#\<close>, and a UI base URL in which no match of the pattern starts,
  \<open>resolveSessionId\<close> gives back the id that \<open>getSessionUrl\<close> was given.
\<close>

theorem resolveSessionId_getSessionUrl:
  assumes "sessionId \<noteq> []" and "\<forall>ch \<in> set sessionId. \<not> delimiter ch"
    and "resolveSessionId (uiBaseUrl c @ ''/session/'') = None"
  shows "resolveSessionId (getSessionUrl c sessionId) = Some sessionId"
  unfolding getSessionUrl_def using assms by (rule resolve_after_base)


text \<open>An instance.\<close>

theorem resolveSessionId_getSessionUrl_witness:
  "''ses_1'' \<noteq> [] \<and>
   resolveSessionId (getSessionUrl example_client ''ses_1'') = Some ''ses_1''"
proof -
  have u: "uiBaseUrl example_client = ''http://h:1/dmF1bHQ''"
    by (simp add: example_defs)
  have a: "''ses_1'' \<noteq> []" by simp
  have b: "\<forall>ch \<in> set ''ses_1''. \<not> delimiter ch" by (simp add: delimiter_def)
  have d: "resolveSessionId (uiBaseUrl example_client @ ''/session/'') = None"
    unfolding u by (simp add: match_at_def)
  from resolveSessionId_getSessionUrl [OF a b d] a show ?thesis by simp
qed

text \<open>
  The claim as it was stated fails for an id with a slash: the group of the pattern ends
  there.
\<close>

theorem resolveSessionId_getSessionUrl_slash:
  "''a/b'' \<noteq> [] \<and> resolveSessionId (getSessionUrl example_client ''a/b'') = Some ''a''"
  by (simp add: getSessionUrl_def example_defs match_at_def delimiter_def)

text \<open>
  The leftmost match may also lie in the UI base URL, which is why the amended claim asks
  that none starts there.
\<close>

lemma resolveSessionId_match_in_base:
  "resolveSessionId (getSessionUrl (constructor ''http://h:1'' ''http://h:1/session/zz'' ''/vault'')
     ''ses_1'') = Some ''zz''"
  by (simp add: getSessionUrl_def constructor_def normalizeBaseUrl_def match_at_def delimiter_def)

section \<open>Context updates\<close>

text \<open>
  Claim C1. Two successful calls for the same session, the first with no part tracked: the
  first answers with a message that has an id and a first part \<open>p\<close>, the second with an
  updated part. Then the calls issued are one POST of the message and one PATCH, in this
  order, and the PATCH goes to the path of \<open>p\<close> (its session, message and part id) with the
  new text.
\<close>

theorem updateContext_twice:
  assumes "lastPart c = None" and "A \<noteq> []" and "B \<noteq> []"
    and "messageReplies w = Json r1 # ms" and "unwrap r1 = Some message"
    and "id_info (info message) \<noteq> []" and "parts message = p # ps"
    and "partReplies w = Json r2 # qs" and "unwrap r2 = Some updated"
    and "updateContext c S (Some A) w = (c1, w1)"
    and "updateContext c1 S (Some B) w1 = (c2, w2)"
  shows "calls w2 = calls w @
           [\<lparr> call_method = POST, url = apiBaseUrl c @ ''/session/'' @ S @ ''/message'',
              directory = projectDirectory c, payload = PromptBody True [(''text'', A)] \<rparr>,
            \<lparr> call_method = PATCH,
              url = apiBaseUrl c @ ''/session/'' @ sessionID p @ ''/message/'' @ messageID p @
                    ''/part/'' @ id_part p,
              directory = projectDirectory c,
              payload = PartBody (p\<lparr> text_part := Some B \<rparr>) \<rparr>] \<and>
         lastPart c1 = Some p \<and> lastPart c2 = Some updated"
proof -
  from assms(1,2,4-7,10)
  have 1: "c1 = c\<lparr> trackedSessionId := Some S, lastPart := Some p \<rparr>"
    and 2: "w1 = issue c POST (''/session/'' @ S @ ''/message'') (PromptBody True [(''text'', A)])
                   (w\<lparr> messageReplies := ms \<rparr>)"
    by (auto simp: updateContext_def truthy_def resetTracking_def post_context_def sendPrompt_def
          request_message_def settle_def first_part_def issue_def Let_def
        split: option.splits if_splits)
  from 2 assms(8) have 3: "partReplies w1 = Json r2 # qs" by (simp add: issue_def)
  from assms(11) 1 3 assms(3,9)
  have 4: "lastPart c2 = Some updated"
    and 5: "w2 = issue c1 PATCH (part_path p) (PartBody (p\<lparr> text_part := Some B \<rparr>))
                   (w1\<lparr> partReplies := qs \<rparr>)"
    by (auto simp: updateContext_def truthy_def resetTracking_def updatePart_def
          request_part_def settle_def spread_def issue_def Let_def
        split: option.splits if_splits)
  from 1 2 4 5 show ?thesis by (simp add: issue_def part_path_def)
qed

text \<open>An instance: the example server.\<close>

theorem updateContext_twice_witness:
  "calls (snd (updateContext (fst (updateContext example_client ''ses_1'' (Some ''A'') example_world))
                 ''ses_1'' (Some ''B'')
                 (snd (updateContext example_client ''ses_1'' (Some ''A'') example_world)))) =
     [\<lparr> call_method = POST, url = ''http://h:1/session/ses_1/message'',
        directory = ''/vault'', payload = PromptBody True [(''text'', ''A'')] \<rparr>,
      \<lparr> call_method = PATCH, url = ''http://h:1/session/ses_1/message/msg_1/part/prt_1'',
        directory = ''/vault'', payload = PartBody (example_part\<lparr> text_part := Some ''B'' \<rparr>) \<rparr>]"
proof -
  let ?u = "updateContext example_client ''ses_1'' (Some ''A'') example_world"
  let ?v = "updateContext (fst ?u) ''ses_1'' (Some ''B'') (snd ?u)"
  have h1: "lastPart example_client = None" by (simp add: example_defs)
  have h2: "''A'' \<noteq> []" and h3: "''B'' \<noteq> []" by simp_all
  have h4: "messageReplies example_world = Json (Direct example_message) # []"
    by (simp add: example_defs)
  have h5: "unwrap (Direct example_message) = Some example_message" by (simp add: unwrap_def)
  have h6: "id_info (info example_message) \<noteq> []" by (simp add: example_defs)
  have h7: "parts example_message = example_part # []" by (simp add: example_defs)
  have h8: "partReplies example_world = Json (Data (example_part\<lparr> text_part := Some ''B'' \<rparr>)) # []"
    by (simp add: example_defs)
  have h9: "unwrap (Data (example_part\<lparr> text_part := Some ''B'' \<rparr>))
              = Some (example_part\<lparr> text_part := Some ''B'' \<rparr>)"
    by (simp add: unwrap_def)
  have h10: "?u = (fst ?u, snd ?u)" and h11: "?v = (fst ?v, snd ?v)" by simp_all
  from updateContext_twice [OF h1 h2 h3 h4 h5 h6 h7 h8 h9 h10 h11]
  show ?thesis by (simp add: example_defs)
qed

text \<open>
  The plugin takes the session id of a call from \<open>resolveSessionId\<close>, which never gives
  the empty string.
\<close>

lemma match_at_not_empty: "match_at s \<noteq> Some []"
  by (simp add: match_at_def Let_def)

lemma resolveSessionId_not_empty: "resolveSessionId u \<noteq> Some []"
proof (induction u)
  case Nil
  show ?case by simp
next
  case (Cons a u)
  show ?case
  proof (cases "match_at (a # u)")
    case None
    with Cons show ?thesis by simp
  next
    case (Some g)
    with match_at_not_empty [of "a # u"] show ?thesis by auto
  qed
qed





text \<open>
  Claim C7, amended. With a part tracked for session \<open>S\<close>, a call with an empty (or absent)
  text issues one call, the PATCH of that part with \<open>ignored\<close> set; the part is untracked
  when the PATCH succeeds and stays tracked when it fails. With no part tracked the call
  issues nothing.
\<close>

theorem updateContext_empty_text:
  "(trackedSessionId c = Some S \<and> lastPart c = Some p \<and> \<not> truthy contextText \<longrightarrow>
      calls (snd (updateContext c S contextText w)) = calls w @
        [\<lparr> call_method = PATCH, url = apiBaseUrl c @ part_path p, directory = projectDirectory c,
           payload = PartBody (p\<lparr> ignored := Some True \<rparr>) \<rparr>] \<and>
      lastPart (fst (updateContext c S contextText w)) =
        (case next_part_reply w of Some u \<Rightarrow> None | None \<Rightarrow> Some p)) \<and>
   (lastPart c = None \<and> \<not> truthy contextText \<longrightarrow>
      updateContext c S contextText w = (c\<lparr> trackedSessionId := Some S \<rparr>, w))"
  by (auto simp: updateContext_def truthy_def resetTracking_def ignorePreviousPart_def
        updatePart_def request_part_def issue_def spread_def next_part_reply_def settle_def
        unwrap_def Let_def
      split: option.splits list.splits prod.splits)

text \<open>An instance: the PATCH succeeds; and a call with nothing tracked.\<close>

theorem updateContext_empty_text_witness:
  "calls (snd (updateContext tracked_client ''ses_1'' (Some []) example_world)) =
     [\<lparr> call_method = PATCH, url = ''http://h:1/session/ses_1/message/msg_1/part/prt_1'',
        directory = ''/vault'', payload = PartBody (example_part\<lparr> ignored := Some True \<rparr>) \<rparr>] \<and>
   lastPart (fst (updateContext tracked_client ''ses_1'' (Some []) example_world)) = None \<and>
   calls (snd (updateContext (example_client\<lparr> trackedSessionId := Some ''ses_1'' \<rparr>) ''ses_1'' None
                 example_world)) = []"
proof -
  have h1: "trackedSessionId tracked_client = Some ''ses_1'' \<and> lastPart tracked_client = Some example_part
            \<and> \<not> truthy (Some [])"
    by (simp add: example_defs truthy_def)
  have h2: "lastPart (example_client\<lparr> trackedSessionId := Some ''ses_1'' \<rparr>) = None \<and> \<not> truthy None"
    by (simp add: example_defs truthy_def)
  have h3: "next_part_reply example_world = Some (example_part\<lparr> text_part := Some ''B'' \<rparr>)"
    by (simp add: next_part_reply_def example_defs settle_def unwrap_def)
  from h1 h2 h3
    updateContext_empty_text [of tracked_client "''ses_1''" example_part "Some []" example_world]
    updateContext_empty_text [of "example_client\<lparr> trackedSessionId := Some ''ses_1'' \<rparr>" "''ses_1''" _ None
       example_world]
  show ?thesis by (simp add: example_defs part_path_def)
qed

text \<open>
  The claim as it was stated fails when the PATCH fails (here the server is gone after the
  first POST): the part stays tracked.
\<close>

theorem updateContext_empty_text_failed_patch:
  "fst (updateContext example_client ''ses_1'' (Some ''A'') world_post_only) = tracked_client \<and>
   trackedSessionId tracked_client = Some ''ses_1'' \<and>
   lastPart tracked_client = Some example_part \<and>
   map call_method (calls (snd (updateContext tracked_client ''ses_1'' (Some [])
       (snd (updateContext example_client ''ses_1'' (Some ''A'') world_post_only))))) = [POST, PATCH] \<and>
   lastPart (fst (updateContext tracked_client ''ses_1'' (Some [])
       (snd (updateContext example_client ''ses_1'' (Some ''A'') world_post_only)))) = Some example_part"
  by (simp add: client_defs example_defs)

section \<open>Teardown\<close>

lemma quiet_start: "quiet (effects e) e"
  by (simp add: quiet_def)

lemma quiet_emit:
  "quiet n e \<Longrightarrow> state m = Stopped \<Longrightarrow> quiet n (emit m x e)"
  by (fastforce simp: quiet_def emit_def)

lemma quiet_emit_other:
  "quiet n e \<Longrightarrow> \<not> teardown_io x \<Longrightarrow> quiet n (emit m x e)"
  by (fastforce simp: quiet_def emit_def)

lemma quiet_fields:
  "effects e' = effects e \<Longrightarrow> quiet n e \<Longrightarrow> quiet n e'"
  by (simp add: quiet_def)

lemma on_exit_stopped:
  assumes "state m = Stopped" and "on_exit m st e = (m', e')"
  shows "state m' = Stopped \<and> process m' = None \<and> e' = e"
  using assms by (cases st) (auto simp: on_exit_def Let_def split: if_splits)

lemma killProcessTree_stopped:
  assumes "state m = Stopped" and "process m = None" and "quiet n e"
    and "killProcessTree p sig proc m e = (r, proc', m', e')"
  shows "state m' = Stopped \<and> process m' = None \<and> quiet n e'"
proof -
  obtain k e0 where k: "next_kill e = (k, e0)" by (cases "next_kill e")
  then have e0: "effects e0 = effects e"
    by (auto simp: next_kill_def split: list.splits)
  with assms(3) have q0: "quiet n e0" by (simp add: quiet_fields)
  show ?thesis
  proof (cases "win32 e0")
    case True
    let ?e1 = "emit m (Exec (''taskkill /T /F /PID '' @ digits p)) e0"
    from q0 assms(1) have q1: "quiet n ?e1" by (simp add: quiet_emit)
    show ?thesis
    proof (cases "exited k")
      case None
      with True k assms(4) have "m' = m" and "e' = ?e1"
        by (auto simp: killProcessTree_def Let_def split: option.splits)
      with assms(1,2) q1 show ?thesis by simp
    next
      case (Some st)
      obtain m2 e2 where x: "on_exit m st ?e1 = (m2, e2)" by (cases "on_exit m st ?e1")
      with assms(1) have s: "state m2 = Stopped \<and> process m2 = None \<and> e2 = ?e1"
        by (rule on_exit_stopped)
      from Some True k x assms(4) have "m' = m2" and "e' = e2"
        by (auto simp: killProcessTree_def Let_def split: option.splits)
      with s q1 show ?thesis by simp
    qed
  next
    case False
    with k assms(4) have "m' = m" and "e' = emit m (ProcessKill p sig) e0"
      by (auto simp: killProcessTree_def Let_def split: option.splits)
    with q0 assms(1,2) show ?thesis by (simp add: quiet_emit)
  qed
qed

lemma waitForProcessExit_stopped:
  assumes "state m = Stopped" and "process m = None" and "quiet n e"
    and "waitForProcessExit proc timeoutMs m e = (r, proc', m', e')"
  shows "state m' = Stopped \<and> process m' = None \<and> quiet n e'"
proof (cases "exitCode proc \<noteq> None \<or> signalCode proc \<noteq> None")
  case True
  with assms(4) have "m' = m" and "e' = e" by (auto simp: waitForProcessExit_def)
  with assms(1-3) show ?thesis by simp
next
  case False
  obtain w ws where w: "(case waits e of [] \<Rightarrow> (None, []) | w # ws \<Rightarrow> (w, ws)) = (w, ws)"
    by (cases "case waits e of [] \<Rightarrow> (None, []) | w # ws \<Rightarrow> (w, ws)")
  let ?e1 = "emit m (AwaitExit timeoutMs) (e\<lparr> waits := ws \<rparr>)"
  from assms(3) have "quiet n (e\<lparr> waits := ws \<rparr>)" by (simp add: quiet_def)
  with assms(1) have q1: "quiet n ?e1" by (simp add: quiet_emit)
  show ?thesis
  proof (cases w)
    case None
    with False w assms(4) have "m' = m" and "e' = ?e1\<lparr> now := now ?e1 + timeoutMs \<rparr>"
      by (auto simp: waitForProcessExit_def Let_def)
    moreover from q1 have "quiet n (?e1\<lparr> now := now ?e1 + timeoutMs \<rparr>)" by (simp add: quiet_def)
    ultimately show ?thesis using assms(1,2) by simp
  next
    case (Some st)
    obtain m2 e2 where x: "on_exit m st ?e1 = (m2, e2)" by (cases "on_exit m st ?e1")
    with assms(1) have s: "state m2 = Stopped \<and> process m2 = None \<and> e2 = ?e1"
      by (rule on_exit_stopped)
    from Some False w x assms(4) have "m' = m2" and "e' = e2"
      by (auto simp: waitForProcessExit_def Let_def)
    with s q1 show ?thesis by simp
  qed
qed

lemma stop_stopped:
  assumes "stop m e = (r, m', e')"
  shows "state m' = Stopped \<and> process m' = None \<and> quiet (effects e) e'"
proof (cases "process m")
  case None
  with assms have "m' = m\<lparr> state := Stopped \<rparr>"
    and "e' = emit (m\<lparr> state := Stopped \<rparr>) (StateChange Stopped) e"
    by (auto simp: stop_def setState_def Let_def)
  with None show ?thesis by (simp add: quiet_emit quiet_start)
next
  case (Some proc)
  note proc = this
  show ?thesis
  proof (cases "pid proc")
    case None
    let ?e0 = "emit m (ConsoleLog ''[OpenCode] No PID available, cleaning up state'') e"
    from None proc assms have "m' = m\<lparr> state := Stopped, process := None \<rparr>"
      and "e' = emit (m\<lparr> state := Stopped \<rparr>) (StateChange Stopped) ?e0"
      by (auto simp: stop_def setState_def Let_def)
    then show ?thesis by (simp add: quiet_emit quiet_emit_other quiet_start)
  next
    case (Some p)
    let ?n = "effects e"
    let ?e0 = "emit m (ConsoleLog ''[OpenCode] Stopping server process tree, PID:'') e"
    let ?m1 = "m\<lparr> state := Stopped \<rparr>"
    let ?e1 = "emit ?m1 (StateChange Stopped) ?e0"
    let ?m2 = "?m1\<lparr> process := None \<rparr>"
    have q1: "quiet ?n ?e1" by (simp add: quiet_emit quiet_emit_other quiet_start)
    obtain r3 proc3 m3 e3 where k1: "killProcessTree p SIGTERM proc ?m2 ?e1 = (r3, proc3, m3, e3)"
      by (cases "killProcessTree p SIGTERM proc ?m2 ?e1")
    with q1 have s3: "state m3 = Stopped \<and> process m3 = None \<and> quiet ?n e3"
      by (intro killProcessTree_stopped [of ?m2 _ ?e1 p SIGTERM proc]) simp_all
    from assms proc Some k1
    have unfolded: "(case (r3, proc3, m3, e3) of
        (Rejected err, proc3, m3, e3) \<Rightarrow> (Rejected err, m3, e3)
      | (Returned u, proc3, m3, e3) \<Rightarrow>
          (case waitForProcessExit proc3 2000 m3 e3 of
             (gracefulExited, proc4, m4, e4) \<Rightarrow>
               if gracefulExited
               then (Returned (), m4,
                     emit m4 (ConsoleLog ''[OpenCode] Server stopped gracefully'') e4)
               else (let e5 = emit m4 (ConsoleLog
                       ''[OpenCode] Process didn't exit gracefully, sending SIGKILL'') e4
                     in (case killProcessTree p SIGKILL proc4 m4 e5 of
                           (Rejected err, proc6, m6, e6) \<Rightarrow> (Rejected err, m6, e6)
                         | (Returned u, proc6, m6, e6) \<Rightarrow>
                             (case waitForProcessExit proc6 3000 m6 e6 of
                                (forceExited, proc7, m7, e7) \<Rightarrow>
                                  if forceExited
                                  then (Returned (), m7, emit m7 (ConsoleLog
                                          ''[OpenCode] Server stopped with SIGKILL'') e7)
                                  else (Returned (), m7, emit m7 (ConsoleError
                                          ''[OpenCode] Failed to stop server within timeout'')
                                          e7)))))) = (r, m', e')"
      by (simp add: stop_def setState_def Let_def)
    show ?thesis
    proof (cases r3)
      case (Rejected err)
      with unfolded s3 show ?thesis by simp
    next
      case (Returned u)
      obtain g proc4 m4 e4 where w1: "waitForProcessExit proc3 2000 m3 e3 = (g, proc4, m4, e4)"
        by (cases "waitForProcessExit proc3 2000 m3 e3")
      with s3 have s4: "state m4 = Stopped \<and> process m4 = None \<and> quiet ?n e4"
        by (intro waitForProcessExit_stopped [of m3 _ e3 proc3 2000]) simp_all
      show ?thesis
      proof (cases g)
        case True
        with unfolded Returned w1 s4 show ?thesis by (auto simp: quiet_emit)
      next
        case False
        let ?e5 = "emit m4 (ConsoleLog
                       ''[OpenCode] Process didn't exit gracefully, sending SIGKILL'') e4"
        from s4 have q5: "quiet ?n ?e5" by (simp add: quiet_emit)
        obtain r6 proc6 m6 e6 where k2: "killProcessTree p SIGKILL proc4 m4 ?e5 = (r6, proc6, m6, e6)"
          by (cases "killProcessTree p SIGKILL proc4 m4 ?e5")
        with s4 q5 have s6: "state m6 = Stopped \<and> process m6 = None \<and> quiet ?n e6"
          by (intro killProcessTree_stopped [of m4 _ ?e5 p SIGKILL proc4]) simp_all
        show ?thesis
        proof (cases r6)
          case (Rejected err)
          with unfolded Returned w1 False k2 s6 show ?thesis by (simp add: Let_def)
        next
          case (Returned u')
          obtain f proc7 m7 e7 where w2: "waitForProcessExit proc6 3000 m6 e6 = (f, proc7, m7, e7)"
            by (cases "waitForProcessExit proc6 3000 m6 e6")
          with s6 have s7: "state m7 = Stopped \<and> process m7 = None \<and> quiet ?n e7"
            by (intro waitForProcessExit_stopped [of m6 _ e6 proc6 3000]) simp_all
          from unfolded \<open>r3 = Returned u\<close> w1 False k2 Returned w2 s7
          show ?thesis by (auto simp: Let_def quiet_emit split: if_splits)
        qed
      qed
    qed
  qed
qed




text \<open>
  Claim C4 fails on the code. Neither \<open>killProcessTree\<close> nor \<open>stop\<close> catches what
  \<open>process.kill\<close> throws or what rejects \<open>execAsync\<close>: when the first signal cannot
  be delivered to the process group of a running child (\<open>ESRCH\<close>), \<open>stop\<close> rejects
  with that error. The state is \<open>stopped\<close> all the same.
\<close>

theorem stop_rejects_when_signal_fails:
  "process running_manager = Some \<lparr> pid = Some 4242, exitCode = None, signalCode = None \<rparr> \<and>
   kills env_signal_fails = [\<lparr> failure = Some ''ESRCH'', exited = None \<rparr>] \<and>
   fst (stop running_manager env_signal_fails) = Rejected ''ESRCH'' \<and>
   state (fst (snd (stop running_manager env_signal_fails))) = Stopped"
  by (simp add: stop_defs manager_defs)

section \<open>Startup\<close>

subsection \<open>Children spawned\<close>


lemma spawned_update [simp]:
  "spawned (e\<lparr> probes := a \<rparr>) = spawned e"
  "spawned (e\<lparr> now := b \<rparr>) = spawned e"
  "spawned (e\<lparr> sleeps := c \<rparr>) = spawned e"
  "spawned (e\<lparr> spawns := d \<rparr>) = spawned e"
  "spawned (e\<lparr> kills := f \<rparr>) = spawned e"
  "spawned (e\<lparr> waits := g \<rparr>) = spawned e"
  by (simp_all add: spawned_def)

















subsection \<open>The diagnostic after a failed poll\<close>

text \<open>
  \<open>stop\<close> drops the handle on every path (see \<open>stop_stopped\<close>), so the test
  \<open>!this.process\<close> that follows it in \<open>start\<close> always holds: \<open>start\<close> never
  records the message of the readiness timeout.
\<close>

lemma nte_setState: "setState m s e = (m', e') \<Longrightarrow> no_timeout_error m' = no_timeout_error m"
  by (auto simp: setState_def no_timeout_error_def Let_def)

lemma nte_on_exit: "on_exit m st e = (m', e') \<Longrightarrow> no_timeout_error m \<Longrightarrow> no_timeout_error m'"
  by (cases st) (auto simp: on_exit_def setState_def no_timeout_error_def Let_def split: if_splits)

lemma nte_on_error: "on_error m code msg e = (m', e') \<Longrightarrow> no_timeout_error m'"
  by (auto simp: on_error_def setError_def setState_def no_timeout_error_def Let_def split: if_splits)

lemma nte_deliver: "deliver evs m e = (m', e') \<Longrightarrow> no_timeout_error m \<Longrightarrow> no_timeout_error m'"
proof (induction evs m e arbitrary: m' e' rule: deliver.induct)
  case (1 m e)
  then show ?case by simp
next
  case (2 st evs m e)
  obtain m1 e1 where h: "on_exit m st e = (m1, e1)" by (cases "on_exit m st e")
  with 2 show ?case by (auto dest: nte_on_exit)
next
  case (3 code message evs m e)
  obtain m1 e1 where h: "on_error m code message e = (m1, e1)"
    by (cases "on_error m code message e")
  with 3 show ?case by (auto dest: nte_on_error)
qed

lemma nte_checkServerHealth:
  "checkServerHealth m e = (h, m', e') \<Longrightarrow> no_timeout_error m \<Longrightarrow> no_timeout_error m'"
  by (auto simp: checkServerHealth_def Let_def split: list.splits prod.splits dest: nte_deliver)

lemma nte_sleep: "sleep ms m e = (m', e') \<Longrightarrow> no_timeout_error m \<Longrightarrow> no_timeout_error m'"
  by (auto simp: sleep_def Let_def split: list.splits prod.splits dest: nte_deliver)

lemma nte_waitForServerOrExit:
  "waitForServerOrExit m timeoutMs startTime e = (r, m', e') \<Longrightarrow> no_timeout_error m \<Longrightarrow>
     no_timeout_error m'"
proof (induction m timeoutMs startTime e rule: waitForServerOrExit.induct)
  case (1 m timeoutMs startTime e)
  show ?case
  proof (cases "now e < startTime + timeoutMs \<and> process m \<noteq> None")
    case False
    with 1(2,3) show ?thesis by (subst (asm) waitForServerOrExit.simps) (auto split: if_splits)
  next
    case True
    obtain h m1 e1 where c: "checkServerHealth m e = (h, m1, e1)"
      by (cases "checkServerHealth m e")
    with 1(3) have n1: "no_timeout_error m1" by (rule nte_checkServerHealth [rotated])
    show ?thesis
    proof (cases h)
      case True
      with \<open>now e < startTime + timeoutMs \<and> process m \<noteq> None\<close> c 1(2) n1 show ?thesis
        by (subst (asm) waitForServerOrExit.simps) auto
    next
      case False
      obtain m2 e2 where s: "sleep 500 m1 e1 = (m2, e2)" by (cases "sleep 500 m1 e1")
      with n1 have n2: "no_timeout_error m2" by (rule nte_sleep [rotated])
      from True c False s 1(2) have "waitForServerOrExit m2 timeoutMs startTime e2 = (r, m', e')"
        by (subst (asm) waitForServerOrExit.simps) auto
      with True n2 show ?thesis
        by (intro "1.IH" [OF _ _ c [symmetric] refl False s [symmetric]]) simp_all
    qed
  qed
qed

lemma lastError_on_exit: "on_exit m st e = (m', e') \<Longrightarrow> lastError_pm m' = lastError_pm m"
  by (cases st) (auto simp: on_exit_def setState_def Let_def split: if_splits)

lemma lastError_killProcessTree:
  "killProcessTree p sig proc m e = (r, proc', m', e') \<Longrightarrow> lastError_pm m' = lastError_pm m"
  by (auto simp: killProcessTree_def Let_def
      split: prod.splits option.splits if_splits dest!: lastError_on_exit)

lemma lastError_waitForProcessExit:
  "waitForProcessExit proc timeoutMs m e = (r, proc', m', e') \<Longrightarrow> lastError_pm m' = lastError_pm m"
  by (auto simp: waitForProcessExit_def Let_def
      split: list.splits prod.splits option.splits if_splits dest!: lastError_on_exit)

lemma lastError_stop: "stop m e = (r, m', e') \<Longrightarrow> lastError_pm m' = lastError_pm m"
  by (auto simp: stop_def setState_def Let_def
      split: prod.splits option.splits if_splits outcome.splits
      dest!: lastError_killProcessTree lastError_waitForProcessExit)

lemma start_never_reports_timeout:
  assumes "start m e = (r, m', e')" and "no_timeout_error m"
  shows "no_timeout_error m'"
proof (cases "state m = Running \<or> state m = Starting")
  case True
  with assms show ?thesis by (auto simp: start_def)
next
  case False
  let ?m2 = "m\<lparr> state := Starting, lastError_pm := None, earlyExitCode := None \<rparr>"
  let ?e1 = "emit (m\<lparr> state := Starting \<rparr>) (StateChange Starting) e"
  have n2: "no_timeout_error ?m2" by (simp add: no_timeout_error_def)
  show ?thesis
  proof (cases "projectDirectory_pm m = []")
    case True
    with False assms(1) show ?thesis
      by (auto simp: start_def setState_def setError_def no_timeout_error_def Let_def)
  next
    case nonempty: False
    obtain h m3 e3 where c: "checkServerHealth ?m2 ?e1 = (h, m3, e3)"
      by (cases "checkServerHealth ?m2 ?e1")
    with n2 have n3: "no_timeout_error m3" by (rule nte_checkServerHealth [rotated])
    show ?thesis
    proof (cases h)
      case True
      with False nonempty c assms(1) n3 show ?thesis
        by (auto simp: start_def setState_def no_timeout_error_def Let_def)
    next
      case unhealthy: False
      obtain m4 e4 where sp: "spawn m3 e3 = (m4, e4)" by (cases "spawn m3 e3")
      with n3 have n4: "no_timeout_error m4"
        by (auto simp: spawn_def no_timeout_error_def Let_def split: list.splits)
      obtain ready m5 e5
        where w: "waitForServerOrExit m4 (startupTimeout (settings m4)) (now e4) e4 = (ready, m5, e5)"
        by (cases "waitForServerOrExit m4 (startupTimeout (settings m4)) (now e4) e4")
      with n4 have n5: "no_timeout_error m5" by (rule nte_waitForServerOrExit [rotated])
      obtain r6 m6 e6 where st: "stop m5 e5 = (r6, m6, e6)" by (cases "stop m5 e5")
      then have p6: "process m6 = None" by (auto dest: stop_stopped)
      from st have l6: "lastError_pm m6 = lastError_pm m5" by (rule lastError_stop)
      from False nonempty c unhealthy sp w st assms(1) n5 p6 l6 show ?thesis
        by (auto simp: start_def setState_def setError_def no_timeout_error_def Let_def
            split: if_splits outcome.splits option.splits)
    qed
  qed
qed

text \<open>When nothing answers and nothing happens to the child, the poll ends by the clock.\<close>

lemma waitForServerOrExit_unanswered:
  "probes e = [] \<Longrightarrow> sleeps e = [] \<Longrightarrow> process m \<noteq> None \<Longrightarrow>
     \<exists>e'. waitForServerOrExit m timeoutMs startTime e = (False, m, e') \<and>
          kills e' = kills e \<and> waits e' = waits e \<and> win32 e' = win32 e"
proof (induction m timeoutMs startTime e rule: waitForServerOrExit.induct)
  case (1 m timeoutMs startTime e)
  let ?e1 = "emit m (Probe (hostname (settings m)) (port (settings m)) (projectDirectory_pm m))
               (e\<lparr> probes := [], now := now e + 0 \<rparr>)"
  let ?e2 = "emit m (Sleep 500) (?e1\<lparr> sleeps := [], now := now ?e1 + 500 + 0 \<rparr>)"
  from 1(2) have c: "checkServerHealth m e = (False, m, ?e1)"
    by (simp add: checkServerHealth_def Let_def)
  from 1(3) have s: "sleep 500 m ?e1 = (m, ?e2)"
    by (simp add: sleep_def emit_def Let_def)
  show ?case
  proof (cases "now e < startTime + timeoutMs")
    case True
    have "probes ?e2 = []" and "sleeps ?e2 = []" by (simp_all add: emit_def)
    with 1(4)
    have "\<exists>e'. waitForServerOrExit m timeoutMs startTime ?e2 = (False, m, e') \<and>
          kills e' = kills ?e2 \<and> waits e' = waits ?e2 \<and> win32 e' = win32 ?e2"
      by (intro "1.IH" [OF True 1(4) c [symmetric] refl _ s [symmetric]]) simp_all
    moreover have "waitForServerOrExit m timeoutMs startTime e
                     = waitForServerOrExit m timeoutMs startTime ?e2"
      by (subst waitForServerOrExit.simps)
         (simp only: True 1(4) c s if_True if_False prod.case)
    ultimately show ?thesis by (simp add: emit_def)
  next
    case False
    then show ?thesis by (subst waitForServerOrExit.simps) simp
  qed
qed

text \<open>
  Claim C5 fails on the code. A child is spawned and never exits, no probe succeeds within
  the 5000 ms: \<open>start\<close> returns false and the state is \<open>error\<close>, but the message is
  the one for a child that exited, not the one for the timeout.
\<close>

theorem start_timeout_reports_exit:
  "fst (start example_manager example_env) = Returned False \<and>
   state (fst (snd (start example_manager example_env))) = Error \<and>
   lastError_pm (fst (snd (start example_manager example_env))) =
     Some ''Process exited before server became ready''"
proof -
  let ?m2 = "example_manager\<lparr> state := Starting \<rparr>"
  let ?p = "Some \<lparr> pid = Some 4242, exitCode = None, signalCode = None \<rparr>"
  let ?m4 = "?m2\<lparr> process := ?p \<rparr>"
  let ?e1 = "emit ?m2 (StateChange Starting) example_env"
  let ?e3 = "emit ?m2 (Probe ''127.0.0.1'' 14096 ''/vault'') (?e1\<lparr> probes := [], now := 0 \<rparr>)"
  let ?e4 = "emit ?m2 (SpawnServe ''opencode'' 14096 ''127.0.0.1'' ''/vault'') (?e3\<lparr> spawns := [] \<rparr>)"
  have "probes ?e4 = []" and "sleeps ?e4 = []" and "process ?m4 \<noteq> None"
    by (simp_all add: emit_def manager_defs)
  then obtain e5 where w: "waitForServerOrExit ?m4 5000 0 ?e4 = (False, ?m4, e5)"
    and k: "kills e5 = kills ?e4" "waits e5 = waits ?e4" "win32 e5 = win32 ?e4"
    using waitForServerOrExit_unanswered [of ?e4 ?m4 5000 0] by blast
  from k have k': "kills e5 = []" "waits e5 = []" "\<not> win32 e5"
    by (simp_all add: emit_def manager_defs)
  have st: "\<exists>e6. stop ?m4 e5 = (Returned (), ?m4\<lparr> state := Stopped, process := None \<rparr>, e6)"
    using k' by (simp add: stop_defs manager_defs)
  then obtain e6 where st6: "stop ?m4 e5 = (Returned (), ?m4\<lparr> state := Stopped, process := None \<rparr>, e6)"
    by blast
  have "\<exists>e7. start example_manager example_env =
          (Returned False,
           ?m4\<lparr> state := Stopped, process := None,
                lastError_pm := Some ''Process exited before server became ready'',
                state := Error \<rparr>, e7)"
    using w st6
    by (simp add: start_def setState_def checkServerHealth_def spawn_def setError_def
          emit_def Let_def manager_defs)
  then show ?thesis by auto
qed

end
